theory Spec2Isabelle
  imports Main
begin

section \<open>Python values\<close>

text \<open>
  Event payloads are \<^verbatim>\<open>dict[str, Any]\<close>. The values that reach the handlers of
  \<^verbatim>\<open>app/sockets.py\<close> are drawn from \<^verbatim>\<open>None\<close>, \<^verbatim>\<open>bool\<close>, \<^verbatim>\<open>int\<close>,
  \<^verbatim>\<open>str\<close>, \<^verbatim>\<open>bytes\<close> and \<^verbatim>\<open>dict\<close>. A \<^verbatim>\<open>dict\<close> value is an association list read
  with \<open>map_of\<close>; the payload of an event itself is a map.
\<close>

type_synonym bytes = "char list"

datatype pyval =
    PNone
  | PBool bool
  | PInt int
  | PStr string
  | PBytes bytes
  | PDict "(string \<times> pyval) list"

type_synonym payload = "string \<rightharpoonup> pyval"

datatype py_error = KeyError | TypeError | AttributeError | JWTError

text \<open>Truth value testing, as \<^verbatim>\<open>not x\<close> and \<^verbatim>\<open>if x\<close> use it.\<close>

fun truthy :: "pyval \<Rightarrow> bool" where
  "truthy PNone = False"
| "truthy (PBool b) = b"
| "truthy (PInt i) = (i \<noteq> 0)"
| "truthy (PStr s) = (s \<noteq> [])"
| "truthy (PBytes b) = (b \<noteq> [])"
| "truthy (PDict kv) = (kv \<noteq> [])"

text \<open>\<^verbatim>\<open>isinstance(x, str)\<close> and \<^verbatim>\<open>isinstance(x, dict)\<close>.\<close>

fun isinstance_str :: "pyval \<Rightarrow> bool" where
  "isinstance_str (PStr s) = True"
| "isinstance_str v = False"

fun isinstance_dict :: "pyval \<Rightarrow> bool" where
  "isinstance_dict (PDict kv) = True"
| "isinstance_dict v = False"

text \<open>\<^verbatim>\<open>data.get(k)\<close>: the value, or \<^verbatim>\<open>None\<close> when the key is absent.\<close>

definition get :: "payload \<Rightarrow> string \<Rightarrow> pyval" where
  "get data k = (case data k of None \<Rightarrow> PNone | Some v \<Rightarrow> v)"

text \<open>\<^verbatim>\<open>data[k]\<close>: raises \<^verbatim>\<open>KeyError\<close> when the key is absent.\<close>

definition item :: "payload \<Rightarrow> string \<Rightarrow> py_error + pyval" where
  "item data k = (case data k of None \<Rightarrow> Inl KeyError | Some v \<Rightarrow> Inr v)"

text \<open>\<^verbatim>\<open>file_info.get(k)\<close> on a value already known to be a \<^verbatim>\<open>dict\<close>.\<close>

fun dict_get :: "pyval \<Rightarrow> string \<Rightarrow> pyval" where
  "dict_get (PDict kv) k = (case map_of kv k of None \<Rightarrow> PNone | Some v \<Rightarrow> v)"
| "dict_get v k = PNone"

section \<open>External collaborators\<close>

text \<open>
  \<^verbatim>\<open>App.models\<close> (users, rooms, messages) is imported by \<^verbatim>\<open>app/sockets.py\<close> and is not
  part of the sources. Its operations are modelled from the interfaces of the
  specification (section 6) on an explicit store that the server state carries.
  A helper that the source awaits is a coroutine function: calling it returns a
  coroutine object, and \<^verbatim>\<open>await\<close> runs that object to the value the interface
  declares. The handlers await \<^verbatim>\<open>join_public_room\<close>, \<^verbatim>\<open>fetch_public_room_by_id\<close>,
  \<^verbatim>\<open>fetch_private_room_by_id\<close>, \<^verbatim>\<open>check_user_in_private_room\<close>, \<^verbatim>\<open>create_message\<close>
  and, in \<^verbatim>\<open>joining_private_room\<close>, \<^verbatim>\<open>send_public_message\<close> and
  \<^verbatim>\<open>send_private_message\<close>, \<^verbatim>\<open>fetch_user_by_id\<close>. The only call of
  \<^verbatim>\<open>check_user_in_public_room\<close> is not awaited and uses the result as a condition:
  it is a plain function.
\<close>

datatype 'a coroutine = Coroutine 'a

fun await :: "'a coroutine \<Rightarrow> 'a" where
  "await (Coroutine x) = x"

record user =
  uid :: string
  email :: string
  display_name :: string

datatype visibility = Public | Private

record message =
  msg_id :: nat
  msg_room :: pyval
  msg_sender :: pyval
  msg_visibility :: visibility
  content :: pyval

record store =
  users :: "string \<rightharpoonup> user"
  public_rooms :: "string \<rightharpoonup> pyval set"
  private_rooms :: "string \<rightharpoonup> pyval set"
  messages :: "message list"

text \<open>
  Modelled from the spec: \<^verbatim>\<open>user_model.fetch_user_by_id\<close>, the user store's
  \<^verbatim>\<open>findByID(userID) -> User | None\<close>. Users are identified by strings; any other
  value identifies no user.
\<close>

fun fetch_user_by_id :: "store \<Rightarrow> pyval \<Rightarrow> user option coroutine" where
  "fetch_user_by_id st (PStr u) = Coroutine (users st u)"
| "fetch_user_by_id st v = Coroutine None"

text \<open>
  Modelled from the spec: \<^verbatim>\<open>public_room.fetch_public_room_by_id\<close> and
  \<^verbatim>\<open>private_room.fetch_private_room_by_id\<close>, the room store's \<^verbatim>\<open>findPublicByID\<close> and
  \<^verbatim>\<open>findPrivateByID\<close>. A public room is returned as its member list, a private room
  as its access list.
\<close>

fun fetch_public_room_by_id :: "store \<Rightarrow> pyval \<Rightarrow> pyval set option coroutine" where
  "fetch_public_room_by_id st (PStr r) = Coroutine (public_rooms st r)"
| "fetch_public_room_by_id st v = Coroutine None"

fun fetch_private_room_by_id :: "store \<Rightarrow> pyval \<Rightarrow> pyval set option coroutine" where
  "fetch_private_room_by_id st (PStr r) = Coroutine (private_rooms st r)"
| "fetch_private_room_by_id st v = Coroutine None"

text \<open>
  Modelled from the spec: \<^verbatim>\<open>public_room.check_user_in_public_room\<close> and
  \<^verbatim>\<open>private_room.check_user_in_private_room\<close>, the room store's
  \<^verbatim>\<open>isMember(roomID, userID) -> bool\<close>: the user is on the member list of the
  public room, or on the access list of the private room.
\<close>

definition check_user_in_public_room :: "store \<Rightarrow> pyval \<Rightarrow> pyval \<Rightarrow> bool" where
  "check_user_in_public_room st room_id user_id =
     (case room_id of
        PStr r \<Rightarrow>
          (case public_rooms st r of
             None \<Rightarrow> False
           | Some members \<Rightarrow> user_id \<in> members)
      | _ \<Rightarrow> False)"

definition check_user_in_private_room ::
  "store \<Rightarrow> pyval \<Rightarrow> pyval \<Rightarrow> bool coroutine" where
  "check_user_in_private_room st room_id user_id =
     Coroutine
       (case await (fetch_private_room_by_id st room_id) of
          None \<Rightarrow> False
        | Some access_list \<Rightarrow> user_id \<in> access_list)"

text \<open>
  Modelled from the spec: \<^verbatim>\<open>public_room.join_public_room\<close>, the access controller's
  \<^verbatim>\<open>joinPublic(roomID, userID) -> (accepted, reason)\<close>: it succeeds whenever the room
  exists and then records the membership in the room store; it is refused, with a
  reason, when the room does not exist. The text of the reason is not given by the
  spec, so it is the parameter \<open>report\<close>, read at the outcome. The third component of
  the result is ignored by the caller and left out.
\<close>

definition join_public_room ::
  "(bool \<Rightarrow> pyval) \<Rightarrow> store \<Rightarrow> pyval \<Rightarrow> pyval
     \<Rightarrow> ((bool \<times> pyval) \<times> store) coroutine" where
  "join_public_room report st room_id user_id =
     Coroutine
       (case room_id of
          PStr r \<Rightarrow>
            (case public_rooms st r of
               None \<Rightarrow> ((False, report False), st)
             | Some members \<Rightarrow>
                 ((True, report True),
                  st\<lparr>public_rooms := (public_rooms st)(r \<mapsto> insert user_id members)\<rparr>))
        | _ \<Rightarrow> ((False, report False), st))"

text \<open>
  Modelled from the spec: \<^verbatim>\<open>message_model.create_message\<close>, the message store's
  \<^verbatim>\<open>create(roomID, senderID, visibility, text) -> Message\<close>, which assigns the
  identifier. Identifiers are issued in sequence; the creation timestamp is not
  modelled.
\<close>

definition create_message ::
  "store \<Rightarrow> pyval \<Rightarrow> pyval \<Rightarrow> visibility \<Rightarrow> pyval \<Rightarrow> (message \<times> store) coroutine" where
  "create_message st room_id user_id vis text =
     (let m = \<lparr>msg_id = length (messages st), msg_room = room_id, msg_sender = user_id,
                msg_visibility = vis, content = text\<rparr>
      in Coroutine (m, st\<lparr>messages := messages st @ [m]\<rparr>))"

text \<open>
  The language runtime and the libraries the handlers call:
  \<^item> \<open>jwt_decode\<close> is \<^verbatim>\<open>jwt.decode(token, settings.secret_key, algorithms=[...])\<close>
    of python-jose with the configured key and algorithm: the claims of the token,
    or the exception raised (\<open>JWTError\<close> for a malformed token or a bad signature);
  \<^item> \<open>py_str\<close> is \<^verbatim>\<open>str()\<close>, which the f-string of \<^verbatim>\<open>upload_file\<close> and
    \<^verbatim>\<open>str(new_message.id)\<close> apply;
  \<^item> \<open>join_report\<close> is the reason text of \<open>join_public_room\<close>.
\<close>

record runtime =
  jwt_decode :: "pyval \<Rightarrow> py_error + payload"
  py_str :: "pyval \<Rightarrow> string"
  join_report :: "bool \<Rightarrow> pyval"

section \<open>Server state\<close>

text \<open>
  \<^verbatim>\<open>sio_server.emit(event, data, room=...)\<close> is recorded in the order of the calls.
  \<^verbatim>\<open>room=sid\<close> and \<^verbatim>\<open>to=sid\<close> address the room that Socket.IO names after the
  connection; an emit with neither goes to every connection.
\<close>

datatype target = Everyone | Room pyval

datatype emit = Emit string pyval target

text \<open>
  \<open>all_clients\<close> and \<open>rooms_client_count\<close> are the two attributes of
  \<^verbatim>\<open>GlobalState\<close>. The other fields hold what the handlers change outside the
  process: the rooms of the Socket.IO server (\<^verbatim>\<open>enter_room\<close>, \<^verbatim>\<open>leave_room\<close>), the
  connections it was told to close (\<^verbatim>\<open>sio_server.disconnect\<close>), the emitted events,
  \<^verbatim>\<open>environ['user_id']\<close> of each connection, the store, and the files under
  \<^verbatim>\<open>uploads/\<close> by path. Output of \<^verbatim>\<open>print\<close> is not kept.
\<close>

record server =
  all_clients :: int
  rooms_client_count :: "pyval \<rightharpoonup> int"
  sio_rooms :: "(string \<times> pyval) set"
  terminated :: "string list"
  emitted :: "emit list"
  environ_user_id :: "string \<rightharpoonup> string"
  db :: store
  files :: "string \<rightharpoonup> bytes"

definition init :: "store \<Rightarrow> (string \<rightharpoonup> bytes) \<Rightarrow> server" where
  "init st fs =
     \<lparr>all_clients = 0, rooms_client_count = Map.empty, sio_rooms = {}, terminated = [],
      emitted = [], environ_user_id = Map.empty, db = st, files = fs\<rparr>"

definition sio_emit :: "string \<Rightarrow> pyval \<Rightarrow> target \<Rightarrow> server \<Rightarrow> server" where
  "sio_emit name d t s = s\<lparr>emitted := emitted s @ [Emit name d t]\<rparr>"

definition sio_disconnect :: "string \<Rightarrow> server \<Rightarrow> server" where
  "sio_disconnect sid s = s\<lparr>terminated := terminated s @ [sid]\<rparr>"

definition sio_enter_room :: "string \<Rightarrow> pyval \<Rightarrow> server \<Rightarrow> server" where
  "sio_enter_room sid room s = s\<lparr>sio_rooms := insert (sid, room) (sio_rooms s)\<rparr>"

definition sio_leave_room :: "string \<Rightarrow> pyval \<Rightarrow> server \<Rightarrow> server" where
  "sio_leave_room sid room s = s\<lparr>sio_rooms := sio_rooms s - {(sid, room)}\<rparr>"

text \<open>\<^verbatim>\<open>rooms_client_count.get(room_id, 0)\<close>.\<close>

definition room_count :: "server \<Rightarrow> pyval \<Rightarrow> int" where
  "room_count s room_id = (case rooms_client_count s room_id of None \<Rightarrow> 0 | Some c \<Rightarrow> c)"

section \<open>Handlers\<close>

text \<open>
  A handler returns the exception it raised, if any, and the state it left. An
  exception ends the handler only: the effects made before it stay.
\<close>

type_synonym outcome = "py_error option \<times> server"

text \<open>
  The value that \<^verbatim>\<open>verify_token\<close> returns and \<^verbatim>\<open>connect\<close> binds to \<^verbatim>\<open>user\<close>. The
  annotation says \<^verbatim>\<open>UserInDB | None\<close>. \<^verbatim>\<open>verify_token\<close> is a plain \<^verbatim>\<open>def\<close> and
  returns what the call \<^verbatim>\<open>user_model.fetch_user_by_id(user_id)\<close> returns, without
  awaiting it: the coroutine object. The attribute \<^verbatim>\<open>id\<close> exists on a user record;
  reading it from anything else raises \<^verbatim>\<open>AttributeError\<close>.
\<close>

datatype user_value = NoUser | UserInDB user | Unawaited "user option coroutine"

fun attr_id :: "user_value \<Rightarrow> py_error + string" where
  "attr_id (UserInDB u) = Inr (uid u)"
| "attr_id v = Inl AttributeError"

definition verify_token :: "runtime \<Rightarrow> store \<Rightarrow> pyval \<Rightarrow> py_error + user_value" where
  "verify_token rt st token =
     (case jwt_decode rt token of
        Inl e \<Rightarrow> (if e = JWTError then Inr NoUser else Inl e)
      | Inr payload \<Rightarrow>
          (let user_id = get payload ''sub''
           in if user_id = PNone then Inr NoUser
              else Inr (Unawaited (fetch_user_by_id st user_id))))"

definition connect :: "runtime \<Rightarrow> string \<Rightarrow> payload \<Rightarrow> server \<Rightarrow> outcome" where
  "connect rt sid auth s =
     (let token = get auth ''token''
      in if \<not> truthy token then (None, sio_disconnect sid s)
         else
           (case verify_token rt (db s) token of
              Inl e \<Rightarrow> (Some e, s)
            | Inr user \<Rightarrow>
                if user = NoUser then (None, sio_disconnect sid s)
                else
                  (case attr_id user of
                     Inl e \<Rightarrow> (Some e, s)
                   | Inr user_id \<Rightarrow>
                       (let s1 = s\<lparr>environ_user_id := (environ_user_id s)(sid \<mapsto> user_id)\<rparr>;
                            s2 = s1\<lparr>all_clients := all_clients s1 + 1\<rparr>
                        in (None, sio_emit ''client_count'' (PInt (all_clients s2))
                                    Everyone s2)))))"

definition disconnect :: "string \<Rightarrow> server \<Rightarrow> outcome" where
  "disconnect sid s =
     (let s1 = s\<lparr>all_clients := all_clients s - 1\<rparr>
      in (None, sio_emit ''client_count'' (PInt (all_clients s1)) Everyone s1))"

definition joining_public_room :: "runtime \<Rightarrow> string \<Rightarrow> payload \<Rightarrow> server \<Rightarrow> outcome" where
  "joining_public_room rt sid data s =
     (let room_id = get data ''room_id'';
          user_id = get data ''user_id''
      in if \<not> isinstance_str room_id \<or> \<not> isinstance_str user_id
         then (None, sio_emit ''error'' (PStr ''Invalid room_id or user_id'') (Room (PStr sid)) s)
         else
           (case await (join_public_room (join_report rt) (db s) room_id user_id) of
              ((room_joined, report), st) \<Rightarrow>
                (let s0 = s\<lparr>db := st\<rparr>
                 in if room_joined
                    then
                      (let s1 = sio_enter_room sid room_id s0;
                           s2 = s1\<lparr>rooms_client_count :=
                                   (rooms_client_count s1)(room_id \<mapsto> room_count s1 room_id + 1)\<rparr>;
                           room_members = room_count s2 room_id;
                           s3 = sio_emit ''room_count'' (PInt room_members) (Room room_id) s2
                       in (None, sio_emit ''user_joined'' user_id (Room room_id) s3))
                    else (None, sio_emit ''error'' report (Room (PStr sid)) s0))))"

definition joining_private_room :: "string \<Rightarrow> payload \<Rightarrow> server \<Rightarrow> outcome" where
  "joining_private_room sid data s =
     (case item data ''room_id'' of
        Inl e \<Rightarrow> (Some e, s)
      | Inr room_id \<Rightarrow>
     (case item data ''user_id'' of
        Inl e \<Rightarrow> (Some e, s)
      | Inr user_id \<Rightarrow>
     (case await (fetch_private_room_by_id (db s) room_id) of
        None \<Rightarrow> (None, sio_emit ''error'' (PStr ''Room not found'') (Room (PStr sid)) s)
      | Some room \<Rightarrow>
     (case await (fetch_user_by_id (db s) user_id) of
        None \<Rightarrow> (None, sio_emit ''error'' (PStr ''User not found'') (Room (PStr sid)) s)
      | Some user \<Rightarrow>
          (if await (check_user_in_private_room (db s) room_id user_id)
           then (None, sio_emit ''user_joined'' user_id (Room room_id)
                         (sio_enter_room sid room_id s))
           else (None, sio_emit ''error'' (PStr ''Access denied'') (Room (PStr sid)) s))))))"

definition leave_room :: "string \<Rightarrow> payload \<Rightarrow> server \<Rightarrow> outcome" where
  "leave_room sid data s =
     (let room_id = get data ''room_id'';
          user_id = get data ''user_id''
      in if \<not> isinstance_str room_id \<or> \<not> isinstance_str user_id
         then (None, sio_emit ''error'' (PStr ''Invalid room_id or user_id'') (Room (PStr sid)) s)
         else
           (let s1 = sio_leave_room sid room_id s;
                s2 = s1\<lparr>rooms_client_count :=
                        (rooms_client_count s1)(room_id \<mapsto> max (room_count s1 room_id - 1) 0)\<rparr>;
                room_members = room_count s2 room_id;
                s3 = sio_emit ''room_count'' (PInt room_members) (Room room_id) s2
            in (None, sio_emit ''user_left'' user_id (Room room_id) s3)))"

definition send_public_message :: "string \<Rightarrow> payload \<Rightarrow> server \<Rightarrow> outcome" where
  "send_public_message sid data s =
     (case item data ''room_id'' of
        Inl e \<Rightarrow> (Some e, s)
      | Inr room_id \<Rightarrow>
     (case item data ''message'' of
        Inl e \<Rightarrow> (Some e, s)
      | Inr message_sent \<Rightarrow>
     (case item data ''user_id'' of
        Inl e \<Rightarrow> (Some e, s)
      | Inr user_id \<Rightarrow>
     (case await (fetch_public_room_by_id (db s) room_id) of
        None \<Rightarrow>
          (None, sio_emit ''error'' (PDict [(''error'', PStr ''Room not found'')])
                   (Room (PStr sid)) s)
      | Some room \<Rightarrow>
     (case await (fetch_user_by_id (db s) user_id) of
        None \<Rightarrow>
          (None, sio_emit ''error'' (PDict [(''error'', PStr ''User not found'')])
                   (Room (PStr sid)) s)
      | Some user \<Rightarrow>
          (if check_user_in_public_room (db s) room_id user_id
           then
             (case await (create_message (db s) room_id user_id Public message_sent) of
                (new_message, st) \<Rightarrow>
                  (None, sio_emit ''message''
                           (PDict [(''sid'', PStr sid),
                                   (''message'', content new_message),
                                   (''user_id'', user_id)])
                           (Room room_id) (s\<lparr>db := st\<rparr>)))
           else (None, s)))))))"

definition send_private_message :: "runtime \<Rightarrow> string \<Rightarrow> payload \<Rightarrow> server \<Rightarrow> outcome" where
  "send_private_message rt sid data s =
     (case item data ''room_id'' of
        Inl e \<Rightarrow> (Some e, s)
      | Inr room_id \<Rightarrow>
     (case item data ''user_id'' of
        Inl e \<Rightarrow> (Some e, s)
      | Inr user_id \<Rightarrow>
     (case item data ''message'' of
        Inl e \<Rightarrow> (Some e, s)
      | Inr message_sent \<Rightarrow>
     (case await (fetch_private_room_by_id (db s) room_id) of
        None \<Rightarrow>
          (None, sio_emit ''error'' (PDict [(''error'', PStr ''Room not found'')])
                   (Room (PStr sid)) s)
      | Some room \<Rightarrow>
     (case await (fetch_user_by_id (db s) user_id) of
        None \<Rightarrow>
          (None, sio_emit ''error'' (PDict [(''error'', PStr ''Users not found'')])
                   (Room (PStr sid)) s)
      | Some user \<Rightarrow>
          (case await (create_message (db s) room_id user_id Private message_sent) of
             (new_message, st) \<Rightarrow>
               (None, sio_emit ''message''
                        (PDict [(''sid'', PStr sid),
                                (''message'', message_sent),
                                (''message_id'',
                                   PStr (py_str rt (PInt (int (msg_id new_message))))),
                                (''user_id'', user_id)])
                        (Room room_id) (s\<lparr>db := st\<rparr>))))))))"

text \<open>
  \<^verbatim>\<open>aiofiles.open(file_path, 'ab')\<close> creates the file when it is absent, before
  anything is written; \<^verbatim>\<open>file.write\<close> on a file opened in binary mode appends a
  \<^verbatim>\<open>bytes\<close> value and raises \<^verbatim>\<open>TypeError\<close> on any other.
\<close>

definition sink :: "server \<Rightarrow> string \<Rightarrow> bytes" where
  "sink s path = (case files s path of None \<Rightarrow> [] | Some bs \<Rightarrow> bs)"

definition open_append :: "string \<Rightarrow> server \<Rightarrow> server" where
  "open_append path s = s\<lparr>files := (files s)(path \<mapsto> sink s path)\<rparr>"

definition file_write :: "string \<Rightarrow> bytes \<Rightarrow> server \<Rightarrow> server" where
  "file_write path bs s = s\<lparr>files := (files s)(path \<mapsto> sink s path @ bs)\<rparr>"

definition upload_path :: "runtime \<Rightarrow> pyval \<Rightarrow> string" where
  "upload_path rt file_info =
     ''uploads/'' @ py_str rt (dict_get file_info ''upload_id'') @ ''_''
       @ py_str rt (dict_get file_info ''filename'')"

definition upload_file :: "runtime \<Rightarrow> string \<Rightarrow> payload \<Rightarrow> server \<Rightarrow> outcome" where
  "upload_file rt sid data s =
     (let room_id = get data ''room_id'';
          user_id = get data ''user_id'';
          file_info = get data ''file_info'';
          file_chunk = get data ''file_chunk''
      in if \<not> isinstance_str room_id \<or> \<not> isinstance_str user_id
         then (None, sio_emit ''error'' (PStr ''Invalid room_id or user_id'') (Room (PStr sid)) s)
         else if \<not> isinstance_dict file_info \<or> \<not> truthy file_chunk
         then (None, sio_emit ''error'' (PStr ''Invalid file_info or file_chunk'')
                       (Room (PStr sid)) s)
         else
           (let file_name = dict_get file_info ''filename'';
                file_size = dict_get file_info ''file_size'';
                upload_id = dict_get file_info ''upload_id'';
                file_path = upload_path rt file_info;
                s1 = open_append file_path s
            in case file_chunk of
                 PBytes bs \<Rightarrow>
                   (None, sio_emit ''file_uploaded''
                            (PDict [(''file_url'', PStr file_path), (''filename'', file_name)])
                            (Room room_id) (file_write file_path bs s1))
               | _ \<Rightarrow> (Some TypeError, s1)))"

section \<open>Event sequences\<close>

datatype event =
    Connect string payload
  | Disconnect string
  | JoiningPublicRoom string payload
  | JoiningPrivateRoom string payload
  | LeaveRoom string payload
  | SendPublicMessage string payload
  | SendPrivateMessage string payload
  | UploadFile string payload

fun dispatch :: "runtime \<Rightarrow> event \<Rightarrow> server \<Rightarrow> outcome" where
  "dispatch rt (Connect sid auth) s = connect rt sid auth s"
| "dispatch rt (Disconnect sid) s = disconnect sid s"
| "dispatch rt (JoiningPublicRoom sid data) s = joining_public_room rt sid data s"
| "dispatch rt (JoiningPrivateRoom sid data) s = joining_private_room sid data s"
| "dispatch rt (LeaveRoom sid data) s = leave_room sid data s"
| "dispatch rt (SendPublicMessage sid data) s = send_public_message sid data s"
| "dispatch rt (SendPrivateMessage sid data) s = send_private_message rt sid data s"
| "dispatch rt (UploadFile sid data) s = upload_file rt sid data s"

text \<open>The server handles the events one after the other; an exception ends one event.\<close>

fun run :: "runtime \<Rightarrow> event list \<Rightarrow> server \<Rightarrow> server" where
  "run rt [] s = s"
| "run rt (e # es) s = run rt es (snd (dispatch rt e s))"

section \<open>Observations on event sequences\<close>

text \<open>
  The claims count events along a run. A public join counts for room \<open>R\<close> when it
  passes the type check of the handler and \<open>join_public_room\<close> accepts it in the
  state it arrives in; a leave counts when it passes the type check; a leave is
  clamped when it arrives while the counter of the room is zero.
\<close>

fun event_name :: "emit \<Rightarrow> string" where
  "event_name (Emit name d t) = name"

definition join_accepted :: "runtime \<Rightarrow> pyval \<Rightarrow> event \<Rightarrow> server \<Rightarrow> bool" where
  "join_accepted rt R e s =
     (case e of
        JoiningPublicRoom sid data \<Rightarrow>
          get data ''room_id'' = R \<and> isinstance_str R \<and> isinstance_str (get data ''user_id'')
          \<and> fst (fst (await (join_public_room (join_report rt) (db s) R
                                 (get data ''user_id''))))
      | _ \<Rightarrow> False)"

definition leave_accepted :: "pyval \<Rightarrow> event \<Rightarrow> bool" where
  "leave_accepted R e =
     (case e of
        LeaveRoom sid data \<Rightarrow>
          get data ''room_id'' = R \<and> isinstance_str R \<and> isinstance_str (get data ''user_id'')
      | _ \<Rightarrow> False)"

fun count_joins :: "runtime \<Rightarrow> pyval \<Rightarrow> event list \<Rightarrow> server \<Rightarrow> nat" where
  "count_joins rt R [] s = 0"
| "count_joins rt R (e # es) s =
     (if join_accepted rt R e s then 1 else 0) + count_joins rt R es (snd (dispatch rt e s))"

fun count_leaves :: "pyval \<Rightarrow> event list \<Rightarrow> nat" where
  "count_leaves R [] = 0"
| "count_leaves R (e # es) = (if leave_accepted R e then 1 else 0) + count_leaves R es"

fun count_clamped :: "runtime \<Rightarrow> pyval \<Rightarrow> event list \<Rightarrow> server \<Rightarrow> nat" where
  "count_clamped rt R [] s = 0"
| "count_clamped rt R (e # es) s =
     (if leave_accepted R e \<and> room_count s R \<le> 0 then 1 else 0)
       + count_clamped rt R es (snd (dispatch rt e s))"

text \<open>
  The bytes that an \<^verbatim>\<open>upload_file\<close> event appends to the file at \<open>path\<close>: the event
  passes both checks of the handler, its chunk is a \<^verbatim>\<open>bytes\<close> value, and its file
  descriptor formats to \<open>path\<close>.
\<close>

fun accepted_chunk :: "runtime \<Rightarrow> string \<Rightarrow> event \<Rightarrow> bytes option" where
  "accepted_chunk rt path (UploadFile sid data) =
     (if isinstance_str (get data ''room_id'') \<and> isinstance_str (get data ''user_id'')
         \<and> isinstance_dict (get data ''file_info'') \<and> truthy (get data ''file_chunk'')
         \<and> upload_path rt (get data ''file_info'') = path
      then (case get data ''file_chunk'' of PBytes bs \<Rightarrow> Some bs | _ \<Rightarrow> None)
      else None)"
| "accepted_chunk rt path e = None"

definition accepted_chunks :: "runtime \<Rightarrow> string \<Rightarrow> event list \<Rightarrow> bytes list" where
  "accepted_chunks rt path evs = List.map_filter (accepted_chunk rt path) evs"

section \<open>A small installation\<close>

text \<open>
  Concrete collaborators for evaluating the handlers: \<^verbatim>\<open>str()\<close> on \<^verbatim>\<open>None\<close>,
  \<^verbatim>\<open>bool\<close>, \<^verbatim>\<open>int\<close> and \<^verbatim>\<open>str\<close> values (the examples format no \<^verbatim>\<open>bytes\<close> and
  no \<^verbatim>\<open>dict\<close>, which are given the empty text), a token decoder that knows three
  tokens, and a store with two users, the public room \<^verbatim>\<open>lobby\<close> and the private
  room \<^verbatim>\<open>vip\<close>, whose access list holds \<^verbatim>\<open>alice\<close> only.
\<close>

fun str_nat :: "nat \<Rightarrow> string" where
  "str_nat n =
     (if n < 10 then [''0123456789'' ! n]
      else str_nat (n div 10) @ [''0123456789'' ! (n mod 10)])"

declare str_nat.simps [simp del]

fun str_scalar :: "pyval \<Rightarrow> string" where
  "str_scalar PNone = ''None''"
| "str_scalar (PBool b) = (if b then ''True'' else ''False'')"
| "str_scalar (PInt i) = (if i < 0 then ''-'' @ str_nat (nat (- i)) else str_nat (nat i))"
| "str_scalar (PStr s) = s"
| "str_scalar (PBytes b) = []"
| "str_scalar (PDict kv) = []"

definition demo_decode :: "pyval \<Rightarrow> py_error + payload" where
  "demo_decode token =
     (if token = PStr ''tok-alice'' then Inr [''sub'' \<mapsto> PStr ''alice'']
      else if token = PStr ''tok-ghost'' then Inr [''sub'' \<mapsto> PStr ''ghost'']
      else if token = PStr ''tok-nosub'' then Inr [''exp'' \<mapsto> PInt 1]
      else Inl JWTError)"

definition demo_rt :: runtime where
  "demo_rt = \<lparr>jwt_decode = demo_decode, py_str = str_scalar,
              join_report = (\<lambda>ok. PStr (if ok then ''joined'' else ''not found''))\<rparr>"

definition demo_store :: store where
  "demo_store =
     \<lparr>users = [''alice'' \<mapsto> \<lparr>uid = ''alice'', email = ''a@x.org'', display_name = ''Alice''\<rparr>,
               ''bob'' \<mapsto> \<lparr>uid = ''bob'', email = ''b@x.org'', display_name = ''Bob''\<rparr>],
      public_rooms = [''lobby'' \<mapsto> {PStr ''alice''}],
      private_rooms = [''vip'' \<mapsto> {PStr ''alice''}],
      messages = []\<rparr>"

definition demo_server :: server where
  "demo_server = init demo_store Map.empty"

definition room_user :: "string \<Rightarrow> string \<Rightarrow> payload" where
  "room_user r u = [''room_id'' \<mapsto> PStr r, ''user_id'' \<mapsto> PStr u]"

definition room_user_message :: "string \<Rightarrow> string \<Rightarrow> string \<Rightarrow> payload" where
  "room_user_message r u m =
     [''room_id'' \<mapsto> PStr r, ''user_id'' \<mapsto> PStr u, ''message'' \<mapsto> PStr m]"

definition demo_file_info :: pyval where
  "demo_file_info =
     PDict [(''filename'', PStr ''a.bin''), (''file_size'', PInt 2), (''upload_id'', PStr ''u1'')]"

definition upload_chunk :: "bytes \<Rightarrow> payload" where
  "upload_chunk bs =
     [''room_id'' \<mapsto> PStr ''lobby'', ''user_id'' \<mapsto> PStr ''alice'',
      ''file_info'' \<mapsto> demo_file_info, ''file_chunk'' \<mapsto> PBytes bs]"

lemmas demo_defs =
  demo_server_def init_def demo_store_def demo_rt_def demo_decode_def room_user_def
  room_user_message_def demo_file_info_def upload_chunk_def get_def item_def

section \<open>What each handler leaves unchanged\<close>

lemma connect_rooms_client_count:
  "rooms_client_count (snd (connect rt sid auth s)) = rooms_client_count s"
  by (simp add: connect_def sio_disconnect_def sio_emit_def Let_def
           split: sum.splits option.splits)

lemma disconnect_rooms_client_count:
  "rooms_client_count (snd (disconnect sid s)) = rooms_client_count s"
  by (simp add: disconnect_def sio_emit_def Let_def)

lemma joining_private_room_rooms_client_count:
  "rooms_client_count (snd (joining_private_room sid data s)) = rooms_client_count s"
  by (simp add: joining_private_room_def sio_emit_def sio_enter_room_def
           split: sum.splits option.splits)

lemma send_public_message_rooms_client_count:
  "rooms_client_count (snd (send_public_message sid data s)) = rooms_client_count s"
  by (simp add: send_public_message_def sio_emit_def split: sum.splits option.splits prod.splits)

lemma send_private_message_rooms_client_count:
  "rooms_client_count (snd (send_private_message rt sid data s)) = rooms_client_count s"
  by (simp add: send_private_message_def sio_emit_def split: sum.splits option.splits prod.splits)

lemma upload_file_rooms_client_count:
  "rooms_client_count (snd (upload_file rt sid data s)) = rooms_client_count s"
  by (simp add: upload_file_def sio_emit_def open_append_def file_write_def Let_def
           split: pyval.splits)

lemma joining_public_room_room_count:
  "room_count (snd (joining_public_room rt sid data s)) R =
     room_count s R + (if join_accepted rt R (JoiningPublicRoom sid data) s then 1 else 0)"
  by (auto simp: joining_public_room_def join_accepted_def join_public_room_def room_count_def
        sio_emit_def sio_enter_room_def Let_def
      split: pyval.splits option.splits prod.splits)

lemma leave_room_room_count:
  "room_count (snd (leave_room sid data s)) R =
     (if leave_accepted R (LeaveRoom sid data) then max (room_count s R - 1) 0
      else room_count s R)"
  by (auto simp: leave_room_def leave_accepted_def room_count_def
        sio_emit_def sio_leave_room_def Let_def
      split: pyval.splits option.splits)

lemma room_count_cong:
  "rooms_client_count s' = rooms_client_count s \<Longrightarrow> room_count s' R = room_count s R"
  by (simp add: room_count_def)

lemma dispatch_room_count:
  assumes "0 \<le> room_count s R"
  shows "room_count (snd (dispatch rt e s)) R =
           room_count s R + (if join_accepted rt R e s then 1 else 0)
             - (if leave_accepted R e then 1 else 0)
             + (if leave_accepted R e \<and> room_count s R \<le> 0 then 1 else 0)"
proof (cases e)
  case (Connect sid auth)
  then show ?thesis
    by (simp add: join_accepted_def leave_accepted_def
          room_count_cong [OF connect_rooms_client_count])
next
  case (Disconnect sid)
  then show ?thesis
    by (simp add: join_accepted_def leave_accepted_def
          room_count_cong [OF disconnect_rooms_client_count])
next
  case (JoiningPublicRoom sid data)
  then show ?thesis
    by (simp add: joining_public_room_room_count leave_accepted_def)
next
  case (JoiningPrivateRoom sid data)
  then show ?thesis
    by (simp add: join_accepted_def leave_accepted_def
          room_count_cong [OF joining_private_room_rooms_client_count])
next
  case (LeaveRoom sid data)
  then show ?thesis
    using assms by (simp add: leave_room_room_count join_accepted_def)
next
  case (SendPublicMessage sid data)
  then show ?thesis
    by (simp add: join_accepted_def leave_accepted_def
          room_count_cong [OF send_public_message_rooms_client_count])
next
  case (SendPrivateMessage sid data)
  then show ?thesis
    by (simp add: join_accepted_def leave_accepted_def
          room_count_cong [OF send_private_message_rooms_client_count])
next
  case (UploadFile sid data)
  then show ?thesis
    by (simp add: join_accepted_def leave_accepted_def
          room_count_cong [OF upload_file_rooms_client_count])
qed

lemma run_room_count:
  "0 \<le> room_count s R \<Longrightarrow>
     0 \<le> room_count (run rt evs s) R
     \<and> room_count (run rt evs s) R =
         room_count s R + int (count_joins rt R evs s) - int (count_leaves R evs)
           + int (count_clamped rt R evs s)"
proof (induction evs arbitrary: s)
  case Nil
  then show ?case by simp
next
  case (Cons e es)
  have step: "room_count (snd (dispatch rt e s)) R =
           room_count s R + (if join_accepted rt R e s then 1 else 0)
             - (if leave_accepted R e then 1 else 0)
             + (if leave_accepted R e \<and> room_count s R \<le> 0 then 1 else 0)"
    using Cons.prems by (rule dispatch_room_count)
  have nonneg: "0 \<le> room_count (snd (dispatch rt e s)) R"
    using Cons.prems step by (simp split: if_splits)
  from Cons.IH [OF nonneg] step show ?case
    by (simp split: if_splits)
qed

lemma connect_files: "files (snd (connect rt sid auth s)) = files s"
  by (simp add: connect_def sio_disconnect_def sio_emit_def Let_def
           split: sum.splits option.splits)

lemma disconnect_files: "files (snd (disconnect sid s)) = files s"
  by (simp add: disconnect_def sio_emit_def Let_def)

lemma joining_public_room_files: "files (snd (joining_public_room rt sid data s)) = files s"
  by (simp add: joining_public_room_def sio_emit_def sio_enter_room_def Let_def
           split: prod.splits)

lemma joining_private_room_files: "files (snd (joining_private_room sid data s)) = files s"
  by (simp add: joining_private_room_def sio_emit_def sio_enter_room_def
           split: sum.splits option.splits)

lemma leave_room_files: "files (snd (leave_room sid data s)) = files s"
  by (simp add: leave_room_def sio_emit_def sio_leave_room_def Let_def)

lemma send_public_message_files: "files (snd (send_public_message sid data s)) = files s"
  by (simp add: send_public_message_def sio_emit_def split: sum.splits option.splits prod.splits)

lemma send_private_message_files: "files (snd (send_private_message rt sid data s)) = files s"
  by (simp add: send_private_message_def sio_emit_def split: sum.splits option.splits prod.splits)

lemma sink_cong: "files s' = files s \<Longrightarrow> sink s' path = sink s path"
  by (simp add: sink_def)

lemma upload_file_sink:
  "sink (snd (upload_file rt sid data s)) path =
     sink s path @ (case accepted_chunk rt path (UploadFile sid data) of
                      None \<Rightarrow> [] | Some bs \<Rightarrow> bs)"
proof (cases "isinstance_str (get data ''room_id'') \<and> isinstance_str (get data ''user_id'')
         \<and> isinstance_dict (get data ''file_info'') \<and> truthy (get data ''file_chunk'')")
  case False
  then show ?thesis
    by (auto simp: upload_file_def sio_emit_def sink_def Let_def)
next
  case True
  then show ?thesis
    by (cases "get data ''file_chunk''")
       (simp_all add: upload_file_def sio_emit_def open_append_def file_write_def sink_def Let_def)
qed


lemma dispatch_sink:
  "sink (snd (dispatch rt e s)) path =
     sink s path @ (case accepted_chunk rt path e of None \<Rightarrow> [] | Some bs \<Rightarrow> bs)"
proof (cases e)
  case (Connect sid auth)
  then show ?thesis by (simp add: sink_cong [OF connect_files])
next
  case (Disconnect sid)
  then show ?thesis by (simp add: sink_cong [OF disconnect_files])
next
  case (JoiningPublicRoom sid data)
  then show ?thesis by (simp add: sink_cong [OF joining_public_room_files])
next
  case (JoiningPrivateRoom sid data)
  then show ?thesis by (simp add: sink_cong [OF joining_private_room_files])
next
  case (LeaveRoom sid data)
  then show ?thesis by (simp add: sink_cong [OF leave_room_files])
next
  case (SendPublicMessage sid data)
  then show ?thesis by (simp add: sink_cong [OF send_public_message_files])
next
  case (SendPrivateMessage sid data)
  then show ?thesis by (simp add: sink_cong [OF send_private_message_files])
next
  case (UploadFile sid data)
  then show ?thesis by (simp only: dispatch.simps upload_file_sink)
qed

lemma run_sink:
  "sink (run rt evs s) path = sink s path @ concat (accepted_chunks rt path evs)"
proof (induction evs arbitrary: s)
  case Nil
  then show ?case by (simp add: accepted_chunks_def map_filter_simps)
next
  case (Cons e es)
  show ?case
    by (simp add: Cons.IH dispatch_sink accepted_chunks_def map_filter_simps
          split: option.splits)
qed

section \<open>Presence counters\<close>

text \<open>
  C1, as the code has it. Starting from the empty registry, after any sequence of
  events the counter of room \<open>R\<close> is never negative, every prefix of a sequence
  being a sequence. It equals the accepted joins minus the leaves plus the number
  of leaves that were clamped, that is, that arrived while the counter was zero.
  It is therefore at least (joins - leaves) clamped at zero, and equal to it when
  no leave was clamped.
\<close>

theorem room_count_walk:
  "0 \<le> room_count (run rt evs (init st fs)) R
   \<and> room_count (run rt evs (init st fs)) R =
       int (count_joins rt R evs (init st fs)) - int (count_leaves R evs)
         + int (count_clamped rt R evs (init st fs))
   \<and> max (int (count_joins rt R evs (init st fs)) - int (count_leaves R evs)) 0
       \<le> room_count (run rt evs (init st fs)) R"
proof -
  have "0 \<le> room_count (init st fs) R"
    by (simp add: room_count_def init_def)
  from run_room_count [OF this, of rt evs]
  show ?thesis by (simp add: room_count_def init_def)
qed

theorem room_count_walk_witness:
  "count_joins demo_rt (PStr ''lobby'')
      [JoiningPublicRoom ''a'' (room_user ''lobby'' ''alice''),
       JoiningPublicRoom ''b'' (room_user ''lobby'' ''bob''),
       LeaveRoom ''a'' (room_user ''lobby'' ''alice'')] demo_server = 2
   \<and> count_leaves (PStr ''lobby'')
      [JoiningPublicRoom ''a'' (room_user ''lobby'' ''alice''),
       JoiningPublicRoom ''b'' (room_user ''lobby'' ''bob''),
       LeaveRoom ''a'' (room_user ''lobby'' ''alice'')] = 1
   \<and> count_clamped demo_rt (PStr ''lobby'')
      [JoiningPublicRoom ''a'' (room_user ''lobby'' ''alice''),
       JoiningPublicRoom ''b'' (room_user ''lobby'' ''bob''),
       LeaveRoom ''a'' (room_user ''lobby'' ''alice'')] demo_server = 0
   \<and> room_count
        (run demo_rt
          [JoiningPublicRoom ''a'' (room_user ''lobby'' ''alice''),
           JoiningPublicRoom ''b'' (room_user ''lobby'' ''bob''),
           LeaveRoom ''a'' (room_user ''lobby'' ''alice'')] demo_server)
        (PStr ''lobby'') = 1"
proof -
  let ?evs = "[JoiningPublicRoom ''a'' (room_user ''lobby'' ''alice''),
               JoiningPublicRoom ''b'' (room_user ''lobby'' ''bob''),
               LeaveRoom ''a'' (room_user ''lobby'' ''alice'')]"
  have j: "count_joins demo_rt (PStr ''lobby'') ?evs demo_server = 2"
    by (simp add: demo_defs join_accepted_def join_public_room_def joining_public_room_def
          room_count_def sio_emit_def sio_enter_room_def Let_def)
  have l: "count_leaves (PStr ''lobby'') ?evs = 1"
    by (simp add: demo_defs leave_accepted_def)
  have c: "count_clamped demo_rt (PStr ''lobby'') ?evs demo_server = 0"
    by (simp add: demo_defs leave_accepted_def join_public_room_def joining_public_room_def
          room_count_def sio_emit_def sio_enter_room_def Let_def)
  from room_count_walk [of demo_rt ?evs demo_store Map.empty "PStr ''lobby''"] j l c
  show ?thesis by (simp add: demo_server_def)
qed

text \<open>
  The closed form of C1 fails when a leave arrives before the join: the leave is
  clamped at zero, the join then counts, and the counter is 1 where
  (joins - leaves) clamped at zero is 0.
\<close>

theorem room_count_closed_form_counterexample:
  "room_count
     (run demo_rt
        [LeaveRoom ''a'' (room_user ''lobby'' ''alice''),
         JoiningPublicRoom ''a'' (room_user ''lobby'' ''alice'')] demo_server)
     (PStr ''lobby'') = 1
   \<and> max (int (count_joins demo_rt (PStr ''lobby'')
              [LeaveRoom ''a'' (room_user ''lobby'' ''alice''),
               JoiningPublicRoom ''a'' (room_user ''lobby'' ''alice'')] demo_server)
          - int (count_leaves (PStr ''lobby'')
              [LeaveRoom ''a'' (room_user ''lobby'' ''alice''),
               JoiningPublicRoom ''a'' (room_user ''lobby'' ''alice'')])) 0 = 0"
  by (simp add: demo_defs join_accepted_def leave_accepted_def join_public_room_def
        joining_public_room_def leave_room_def room_count_def sio_emit_def sio_enter_room_def
        sio_leave_room_def Let_def)

text \<open>
  C7 at the sequence that breaks it. A connect without a token is refused, so
  \<open>all_clients\<close> stays 0; the handler asks the server to close the connection, and
  the disconnect event of that connection then takes the counter to -1, which is
  also broadcast as the client count. \<open>disconnect\<close> subtracts without the clamp at
  zero that \<open>leave_room\<close> applies to its counter.
\<close>

theorem disconnect_after_refused_connect:
  "all_clients (run demo_rt [Connect ''a'' Map.empty, Disconnect ''a''] demo_server) = - 1
   \<and> terminated (run demo_rt [Connect ''a'' Map.empty, Disconnect ''a''] demo_server) = [''a'']
   \<and> emitted (run demo_rt [Connect ''a'' Map.empty, Disconnect ''a''] demo_server)
       = [Emit ''client_count'' (PInt (- 1)) Everyone]"
  by (simp add: demo_defs connect_def disconnect_def sio_disconnect_def sio_emit_def)

text \<open>
  C8. A disconnect subtracts one from \<open>all_clients\<close> and broadcasts the new total
  as \<^verbatim>\<open>client_count\<close> to everyone. Nothing else changes: not
  \<open>rooms_client_count\<close>, not the rooms of the connection, and the only event is the
  broadcast, which is not addressed to a room.
\<close>

theorem disconnect_frame:
  "disconnect sid s =
     (None, s\<lparr>all_clients := all_clients s - 1,
              emitted := emitted s @ [Emit ''client_count'' (PInt (all_clients s - 1)) Everyone]\<rparr>)
   \<and> rooms_client_count (snd (disconnect sid s)) = rooms_client_count s
   \<and> sio_rooms (snd (disconnect sid s)) = sio_rooms s"
  by (simp add: disconnect_def sio_emit_def Let_def)

theorem disconnect_frame_witness:
  "all_clients
     (snd (disconnect ''a''
        (snd (joining_public_room demo_rt ''a'' (room_user ''lobby'' ''alice'') demo_server)))) = - 1
   \<and> rooms_client_count
     (snd (disconnect ''a''
        (snd (joining_public_room demo_rt ''a'' (room_user ''lobby'' ''alice'') demo_server))))
     (PStr ''lobby'') = Some 1"
proof -
  have "rooms_client_count
          (snd (joining_public_room demo_rt ''a'' (room_user ''lobby'' ''alice'') demo_server))
          (PStr ''lobby'') = Some 1"
    and "all_clients
          (snd (joining_public_room demo_rt ''a'' (room_user ''lobby'' ''alice'') demo_server)) = 0"
    by (simp_all add: demo_defs join_public_room_def joining_public_room_def room_count_def
          sio_emit_def sio_enter_room_def Let_def)
  with disconnect_frame [of "''a''"
      "snd (joining_public_room demo_rt ''a'' (room_user ''lobby'' ''alice'') demo_server)"]
  show ?thesis by simp
qed

section \<open>Authentication\<close>

text \<open>
  What \<open>connect\<close> does, by the token. Without a token, with a token whose decoding
  raises \<^verbatim>\<open>JWTError\<close>, or with claims that have no subject, it asks the server to
  close the connection and does nothing else. With claims that have a subject,
  \<open>verify_token\<close> returns the coroutine object of \<open>fetch_user_by_id\<close>, which is not
  \<^verbatim>\<open>None\<close>; \<open>connect\<close> then reads \<^verbatim>\<open>user.id\<close> from it and raises, with the state
  as it was.
\<close>

lemma connect_outcomes:
  "((\<not> truthy (get auth ''token'')
      \<or> jwt_decode rt (get auth ''token'') = Inl JWTError
      \<or> (\<exists>claims. jwt_decode rt (get auth ''token'') = Inr claims
            \<and> get claims ''sub'' = PNone))
     \<longrightarrow> connect rt sid auth s = (None, s\<lparr>terminated := terminated s @ [sid]\<rparr>))
   \<and> (truthy (get auth ''token'')
        \<and> jwt_decode rt (get auth ''token'') = Inr claims
        \<and> get claims ''sub'' \<noteq> PNone
     \<longrightarrow> connect rt sid auth s = (Some AttributeError, s))"
  by (auto simp: connect_def verify_token_def sio_disconnect_def Let_def split: sum.splits)

text \<open>
  C2 at the inputs that break it. The token of \<^verbatim>\<open>alice\<close> decodes and its subject
  names a user of the store: \<open>connect\<close> raises \<^verbatim>\<open>AttributeError\<close>, \<open>all_clients\<close>
  stays 0 and no \<^verbatim>\<open>client_count\<close> is broadcast. The token whose subject names no
  user has the same outcome: the connection is not closed by the handler.
\<close>

theorem connect_valid_token_raises:
  "await (fetch_user_by_id (db demo_server) (PStr ''alice''))
     = Some \<lparr>uid = ''alice'', email = ''a@x.org'', display_name = ''Alice''\<rparr>
   \<and> connect demo_rt ''a'' [''token'' \<mapsto> PStr ''tok-alice''] demo_server
     = (Some AttributeError, demo_server)
   \<and> await (fetch_user_by_id (db demo_server) (PStr ''ghost'')) = None
   \<and> connect demo_rt ''a'' [''token'' \<mapsto> PStr ''tok-ghost''] demo_server
     = (Some AttributeError, demo_server)"
  by (simp add: connect_def verify_token_def Let_def demo_defs)

section \<open>Rooms and messages\<close>

text \<open>
  C3. When the public room and the sender exist and the sender is not a member of
  the room, \<open>send_public_message\<close> returns with the state as it was: no message is
  stored, nothing is emitted, neither to the room nor to the sender.
\<close>

theorem send_public_message_non_member:
  assumes "data ''room_id'' = Some room_id"
    and "data ''message'' = Some message_sent"
    and "data ''user_id'' = Some user_id"
    and "await (fetch_public_room_by_id (db s) room_id) = Some members"
    and "await (fetch_user_by_id (db s) user_id) = Some u"
    and "user_id \<notin> members"
  shows "send_public_message sid data s = (None, s)"
  using assms
  by (cases room_id)
     (simp_all add: send_public_message_def item_def check_user_in_public_room_def)

theorem send_public_message_non_member_witness:
  "send_public_message ''b'' (room_user_message ''lobby'' ''bob'' ''hi'') demo_server
     = (None, demo_server)"
  by (rule send_public_message_non_member
        [where room_id = "PStr ''lobby''" and user_id = "PStr ''bob''"
           and message_sent = "PStr ''hi''" and members = "{PStr ''alice''}"
           and u = "\<lparr>uid = ''bob'', email = ''b@x.org'', display_name = ''Bob''\<rparr>"])
     (simp_all add: demo_defs)

text \<open>
  C4. With both fields present, \<open>joining_private_room\<close> checks in this order: a room
  that does not exist gives the error \<^verbatim>\<open>Room not found\<close>; otherwise a user that does
  not exist gives \<^verbatim>\<open>User not found\<close>; otherwise a user who is not on the access list
  gives \<^verbatim>\<open>Access denied\<close>. In these three cases the error goes to the connection
  and nothing else changes. Only a user on the access list is entered into the
  room, and \<^verbatim>\<open>user_joined\<close> goes to the room.
\<close>

theorem joining_private_room_checks:
  assumes "data ''room_id'' = Some room_id" and "data ''user_id'' = Some user_id"
  shows "(await (fetch_private_room_by_id (db s) room_id) = None \<longrightarrow>
            joining_private_room sid data s =
              (None, s\<lparr>emitted := emitted s
                 @ [Emit ''error'' (PStr ''Room not found'') (Room (PStr sid))]\<rparr>))
       \<and> (await (fetch_private_room_by_id (db s) room_id) = Some access_list
            \<and> await (fetch_user_by_id (db s) user_id) = None \<longrightarrow>
            joining_private_room sid data s =
              (None, s\<lparr>emitted := emitted s
                 @ [Emit ''error'' (PStr ''User not found'') (Room (PStr sid))]\<rparr>))
       \<and> (await (fetch_private_room_by_id (db s) room_id) = Some access_list
            \<and> await (fetch_user_by_id (db s) user_id) = Some u
            \<and> user_id \<notin> access_list \<longrightarrow>
            joining_private_room sid data s =
              (None, s\<lparr>emitted := emitted s
                 @ [Emit ''error'' (PStr ''Access denied'') (Room (PStr sid))]\<rparr>))
       \<and> (await (fetch_private_room_by_id (db s) room_id) = Some access_list
            \<and> await (fetch_user_by_id (db s) user_id) = Some u
            \<and> user_id \<in> access_list \<longrightarrow>
            joining_private_room sid data s =
              (None, s\<lparr>sio_rooms := insert (sid, room_id) (sio_rooms s),
                       emitted := emitted s @ [Emit ''user_joined'' user_id (Room room_id)]\<rparr>))"
  using assms
  by (simp add: joining_private_room_def item_def check_user_in_private_room_def
        sio_emit_def sio_enter_room_def)

theorem joining_private_room_checks_witness:
  "joining_private_room ''a'' (room_user ''attic'' ''ghost'') demo_server
     = (None, demo_server\<lparr>emitted :=
          [Emit ''error'' (PStr ''Room not found'') (Room (PStr ''a''))]\<rparr>)
   \<and> joining_private_room ''a'' (room_user ''vip'' ''ghost'') demo_server
     = (None, demo_server\<lparr>emitted :=
          [Emit ''error'' (PStr ''User not found'') (Room (PStr ''a''))]\<rparr>)
   \<and> joining_private_room ''b'' (room_user ''vip'' ''bob'') demo_server
     = (None, demo_server\<lparr>emitted :=
          [Emit ''error'' (PStr ''Access denied'') (Room (PStr ''b''))]\<rparr>)
   \<and> joining_private_room ''a'' (room_user ''vip'' ''alice'') demo_server
     = (None, demo_server\<lparr>sio_rooms := {(''a'', PStr ''vip'')},
          emitted := [Emit ''user_joined'' (PStr ''alice'') (Room (PStr ''vip''))]\<rparr>)"
proof -
  have attic: "joining_private_room ''a'' (room_user ''attic'' ''ghost'') demo_server
     = (None, demo_server\<lparr>emitted := emitted demo_server @
          [Emit ''error'' (PStr ''Room not found'') (Room (PStr ''a''))]\<rparr>)"
    by (rule joining_private_room_checks
          [where room_id = "PStr ''attic''" and user_id = "PStr ''ghost''",
           THEN conjunct1, rule_format])
       (simp_all add: demo_defs)
  have ghost: "joining_private_room ''a'' (room_user ''vip'' ''ghost'') demo_server
     = (None, demo_server\<lparr>emitted := emitted demo_server @
          [Emit ''error'' (PStr ''User not found'') (Room (PStr ''a''))]\<rparr>)"
    by (rule joining_private_room_checks
          [where room_id = "PStr ''vip''" and user_id = "PStr ''ghost''"
             and access_list = "{PStr ''alice''}",
           THEN conjunct2, THEN conjunct1, rule_format])
       (simp_all add: demo_defs)
  have bob: "joining_private_room ''b'' (room_user ''vip'' ''bob'') demo_server
     = (None, demo_server\<lparr>emitted := emitted demo_server @
          [Emit ''error'' (PStr ''Access denied'') (Room (PStr ''b''))]\<rparr>)"
    by (rule joining_private_room_checks
          [where room_id = "PStr ''vip''" and user_id = "PStr ''bob''"
             and access_list = "{PStr ''alice''}"
             and u = "\<lparr>uid = ''bob'', email = ''b@x.org'', display_name = ''Bob''\<rparr>",
           THEN conjunct2, THEN conjunct2, THEN conjunct1, rule_format])
       (simp_all add: demo_defs)
  have alice: "joining_private_room ''a'' (room_user ''vip'' ''alice'') demo_server
     = (None, demo_server\<lparr>sio_rooms := insert (''a'', PStr ''vip'') (sio_rooms demo_server),
          emitted := emitted demo_server @
            [Emit ''user_joined'' (PStr ''alice'') (Room (PStr ''vip''))]\<rparr>)"
    by (rule joining_private_room_checks
          [where room_id = "PStr ''vip''" and user_id = "PStr ''alice''"
             and access_list = "{PStr ''alice''}"
             and u = "\<lparr>uid = ''alice'', email = ''a@x.org'', display_name = ''Alice''\<rparr>",
           THEN conjunct2, THEN conjunct2, THEN conjunct2, rule_format])
       (simp_all add: demo_defs)
  from attic ghost bob alice show ?thesis
    by (simp add: demo_server_def init_def)
qed

text \<open>
  C5. When the private room and the sender exist, \<open>send_private_message\<close> stores the
  message and emits it to the room, whose connections the Socket.IO server
  delivers it to. The access list of the room is not read: the theorem has no
  hypothesis on it, and its instance below is a sender who is not on the list.
\<close>

theorem send_private_message_unconditional:
  assumes "data ''room_id'' = Some room_id"
    and "data ''user_id'' = Some user_id"
    and "data ''message'' = Some message_sent"
    and "await (fetch_private_room_by_id (db s) room_id) = Some access_list"
    and "await (fetch_user_by_id (db s) user_id) = Some u"
  shows "send_private_message rt sid data s =
           (None,
            s\<lparr>db := (db s)\<lparr>messages := messages (db s)
                 @ [\<lparr>msg_id = length (messages (db s)), msg_room = room_id,
                      msg_sender = user_id, msg_visibility = Private,
                      content = message_sent\<rparr>]\<rparr>,
              emitted := emitted s
                 @ [Emit ''message''
                      (PDict [(''sid'', PStr sid),
                              (''message'', message_sent),
                              (''message_id'',
                                 PStr (py_str rt (PInt (int (length (messages (db s))))))),
                              (''user_id'', user_id)])
                      (Room room_id)]\<rparr>)"
  using assms
  by (simp add: send_private_message_def item_def create_message_def sio_emit_def Let_def)

theorem send_private_message_unconditional_witness:
  "\<not> await (check_user_in_private_room (db demo_server) (PStr ''vip'') (PStr ''bob''))
   \<and> messages (db (snd (send_private_message demo_rt ''b''
                          (room_user_message ''vip'' ''bob'' ''hi'') demo_server)))
       = [\<lparr>msg_id = 0, msg_room = PStr ''vip'', msg_sender = PStr ''bob'',
            msg_visibility = Private, content = PStr ''hi''\<rparr>]
   \<and> emitted (snd (send_private_message demo_rt ''b''
                     (room_user_message ''vip'' ''bob'' ''hi'') demo_server))
       = [Emit ''message''
            (PDict [(''sid'', PStr ''b''), (''message'', PStr ''hi''),
                    (''message_id'', PStr ''0''), (''user_id'', PStr ''bob'')])
            (Room (PStr ''vip''))]"
proof -
  have outsider: "\<not> await (check_user_in_private_room (db demo_server) (PStr ''vip'') (PStr ''bob''))"
    by (simp add: check_user_in_private_room_def demo_defs)
  have "send_private_message demo_rt ''b'' (room_user_message ''vip'' ''bob'' ''hi'') demo_server
      = (None,
         demo_server\<lparr>db := (db demo_server)\<lparr>messages := messages (db demo_server)
              @ [\<lparr>msg_id = length (messages (db demo_server)), msg_room = PStr ''vip'',
                   msg_sender = PStr ''bob'', msg_visibility = Private,
                   content = PStr ''hi''\<rparr>]\<rparr>,
           emitted := emitted demo_server
              @ [Emit ''message''
                   (PDict [(''sid'', PStr ''b''),
                           (''message'', PStr ''hi''),
                           (''message_id'',
                              PStr (py_str demo_rt
                                     (PInt (int (length (messages (db demo_server))))))),
                           (''user_id'', PStr ''bob'')])
                   (Room (PStr ''vip''))]\<rparr>)"
    by (rule send_private_message_unconditional
          [where access_list = "{PStr ''alice''}"
             and u = "\<lparr>uid = ''bob'', email = ''b@x.org'', display_name = ''Bob''\<rparr>"])
       (simp_all add: demo_defs)
  with outsider show ?thesis
    by (simp add: demo_defs str_nat.simps)
qed

text \<open>
  C10. \<open>joining_private_room\<close>, whatever its outcome, leaves \<open>rooms_client_count\<close> as
  it was and emits no \<^verbatim>\<open>room_count\<close> event. An accepted \<open>joining_public_room\<close> adds
  one to the counter of the room and emits \<^verbatim>\<open>room_count\<close> with the new value to the
  room, before \<^verbatim>\<open>user_joined\<close>.
\<close>

theorem private_join_leaves_counters:
  "rooms_client_count (snd (joining_private_room sid data s)) = rooms_client_count s
   \<and> filter (\<lambda>e. event_name e = ''room_count'') (emitted (snd (joining_private_room sid data s)))
       = filter (\<lambda>e. event_name e = ''room_count'') (emitted s)
   \<and> (get data ''room_id'' = PStr r \<and> get data ''user_id'' = PStr u
        \<and> public_rooms (db s) r = Some members
      \<longrightarrow> joining_public_room rt sid data s =
            (None,
             s\<lparr>db := (db s)\<lparr>public_rooms := (public_rooms (db s))(r \<mapsto> insert (PStr u) members)\<rparr>,
               sio_rooms := insert (sid, PStr r) (sio_rooms s),
               rooms_client_count :=
                 (rooms_client_count s)(PStr r \<mapsto> room_count s (PStr r) + 1),
               emitted := emitted s
                 @ [Emit ''room_count'' (PInt (room_count s (PStr r) + 1)) (Room (PStr r)),
                    Emit ''user_joined'' (PStr u) (Room (PStr r))]\<rparr>))"
proof (intro conjI impI)
  show "rooms_client_count (snd (joining_private_room sid data s)) = rooms_client_count s"
    by (rule joining_private_room_rooms_client_count)
  show "filter (\<lambda>e. event_name e = ''room_count'') (emitted (snd (joining_private_room sid data s)))
       = filter (\<lambda>e. event_name e = ''room_count'') (emitted s)"
    by (simp add: joining_private_room_def sio_emit_def sio_enter_room_def
           split: sum.splits option.splits)
next
  assume "get data ''room_id'' = PStr r \<and> get data ''user_id'' = PStr u
        \<and> public_rooms (db s) r = Some members"
  then show "joining_public_room rt sid data s =
            (None,
             s\<lparr>db := (db s)\<lparr>public_rooms := (public_rooms (db s))(r \<mapsto> insert (PStr u) members)\<rparr>,
               sio_rooms := insert (sid, PStr r) (sio_rooms s),
               rooms_client_count :=
                 (rooms_client_count s)(PStr r \<mapsto> room_count s (PStr r) + 1),
               emitted := emitted s
                 @ [Emit ''room_count'' (PInt (room_count s (PStr r) + 1)) (Room (PStr r)),
                    Emit ''user_joined'' (PStr u) (Room (PStr r))]\<rparr>)"
    by (simp add: joining_public_room_def join_public_room_def sio_emit_def sio_enter_room_def
          room_count_def Let_def)
qed

theorem private_join_leaves_counters_witness:
  "rooms_client_count (snd (joining_private_room ''a'' (room_user ''vip'' ''alice'') demo_server))
     = Map.empty
   \<and> filter (\<lambda>e. event_name e = ''room_count'')
        (emitted (snd (joining_private_room ''a'' (room_user ''vip'' ''alice'') demo_server))) = []
   \<and> rooms_client_count
        (snd (joining_public_room demo_rt ''a'' (room_user ''lobby'' ''alice'') demo_server))
      = [PStr ''lobby'' \<mapsto> 1]
   \<and> emitted (snd (joining_public_room demo_rt ''a'' (room_user ''lobby'' ''alice'') demo_server))
      = [Emit ''room_count'' (PInt 1) (Room (PStr ''lobby'')),
         Emit ''user_joined'' (PStr ''alice'') (Room (PStr ''lobby''))]"
proof -
  note frame = private_join_leaves_counters
    [where sid = "''a''" and data = "room_user ''vip'' ''alice''" and s = demo_server]
  have public: "joining_public_room demo_rt ''a'' (room_user ''lobby'' ''alice'') demo_server =
      (None,
       demo_server\<lparr>db := (db demo_server)\<lparr>public_rooms := (public_rooms (db demo_server))
                          (''lobby'' \<mapsto> insert (PStr ''alice'') {PStr ''alice''})\<rparr>,
         sio_rooms := insert (''a'', PStr ''lobby'') (sio_rooms demo_server),
         rooms_client_count := (rooms_client_count demo_server)
            (PStr ''lobby'' \<mapsto> room_count demo_server (PStr ''lobby'') + 1),
         emitted := emitted demo_server
           @ [Emit ''room_count'' (PInt (room_count demo_server (PStr ''lobby'') + 1))
                (Room (PStr ''lobby'')),
              Emit ''user_joined'' (PStr ''alice'') (Room (PStr ''lobby''))]\<rparr>)"
    by (rule private_join_leaves_counters
          [where s = demo_server and members = "{PStr ''alice''}",
           THEN conjunct2, THEN conjunct2, rule_format])
       (simp add: demo_defs)
  from frame public show ?thesis
    by (simp add: demo_server_def init_def room_count_def)
qed

section \<open>Chunked uploads\<close>

text \<open>
  C6, as the code has it. For every path under \<^verbatim>\<open>uploads/\<close>, that is, for every
  text that an upload id and a file name format to, and from any state: after a
  sequence of events the file holds what it held before, followed by the accepted
  chunks for this path in the order of their arrival. Its size has grown by the
  sum of their sizes and has not decreased. The declared \<^verbatim>\<open>file_size\<close> is read by
  \<open>upload_file\<close> and not compared with anything, so it bounds nothing.
\<close>

theorem upload_append_only:
  "sink (run rt evs s) path = sink s path @ concat (accepted_chunks rt path evs)
   \<and> length (sink (run rt evs s) path) =
       length (sink s path) + sum_list (map length (accepted_chunks rt path evs))
   \<and> length (sink s path) \<le> length (sink (run rt evs s) path)"
  by (simp add: run_sink length_concat)

theorem upload_append_only_witness:
  "accepted_chunks demo_rt ''uploads/u1_a.bin''
     [UploadFile ''a'' (upload_chunk ''ab''), LeaveRoom ''a'' (room_user ''lobby'' ''alice''),
      UploadFile ''a'' (upload_chunk ''cde'')] = [''ab'', ''cde'']
   \<and> sink (run demo_rt
        [UploadFile ''a'' (upload_chunk ''ab''), LeaveRoom ''a'' (room_user ''lobby'' ''alice''),
         UploadFile ''a'' (upload_chunk ''cde'')] demo_server) ''uploads/u1_a.bin'' = ''abcde''"
proof -
  let ?evs = "[UploadFile ''a'' (upload_chunk ''ab''),
               LeaveRoom ''a'' (room_user ''lobby'' ''alice''),
               UploadFile ''a'' (upload_chunk ''cde'')]"
  have chunks: "accepted_chunks demo_rt ''uploads/u1_a.bin'' ?evs = [''ab'', ''cde'']"
    by (simp add: accepted_chunks_def map_filter_simps upload_path_def demo_defs)
  have empty: "sink demo_server ''uploads/u1_a.bin'' = []"
    by (simp add: sink_def demo_defs)
  from upload_append_only [of demo_rt ?evs demo_server "''uploads/u1_a.bin''"] chunks empty
  show ?thesis by simp
qed

text \<open>
  The bound of C6 fails at the first chunk that is longer than the declared size:
  the descriptor declares 2 bytes, the chunk has 3, and the file holds 3.
\<close>

theorem upload_exceeds_declared_size_counterexample:
  "dict_get (get (upload_chunk ''abc'') ''file_info'') ''file_size'' = PInt 2
   \<and> length (sink (snd (upload_file demo_rt ''a'' (upload_chunk ''abc'') demo_server))
               ''uploads/u1_a.bin'') = 3"
  by (simp add: upload_file_def upload_path_def sio_emit_def open_append_def file_write_def
        sink_def Let_def demo_defs)

text \<open>
  C9. An \<^verbatim>\<open>upload_file\<close> event whose room id or user id is not a string, whose file
  descriptor is not a \<^verbatim>\<open>dict\<close>, or whose chunk is absent or empty, has one effect:
  an \<^verbatim>\<open>error\<close> event to the connection it came from; no file changes. An event
  with two strings, a \<^verbatim>\<open>dict\<close> and a non-empty \<^verbatim>\<open>bytes\<close> chunk appends the chunk to
  the file at the path of its descriptor, which starts empty when it does not
  exist yet, and emits \<^verbatim>\<open>file_uploaded\<close> to the room; this holds for each chunk.
\<close>

theorem upload_file_validation:
  "((\<not> isinstance_str (get data ''room_id'') \<or> \<not> isinstance_str (get data ''user_id''))
      \<longrightarrow> upload_file rt sid data s =
            (None, s\<lparr>emitted := emitted s
               @ [Emit ''error'' (PStr ''Invalid room_id or user_id'') (Room (PStr sid))]\<rparr>))
   \<and> (isinstance_str (get data ''room_id'') \<and> isinstance_str (get data ''user_id'')
        \<and> (\<not> isinstance_dict (get data ''file_info'') \<or> \<not> truthy (get data ''file_chunk''))
      \<longrightarrow> upload_file rt sid data s =
            (None, s\<lparr>emitted := emitted s
               @ [Emit ''error'' (PStr ''Invalid file_info or file_chunk'')
                    (Room (PStr sid))]\<rparr>))
   \<and> (get data ''room_id'' = PStr room_id \<and> get data ''user_id'' = PStr user_id
        \<and> get data ''file_info'' = PDict file_info \<and> get data ''file_chunk'' = PBytes chunk
        \<and> chunk \<noteq> []
      \<longrightarrow> upload_file rt sid data s =
            (None, s\<lparr>files := (files s)(upload_path rt (PDict file_info)
                                \<mapsto> sink s (upload_path rt (PDict file_info)) @ chunk),
                     emitted := emitted s
               @ [Emit ''file_uploaded''
                    (PDict [(''file_url'', PStr (upload_path rt (PDict file_info))),
                            (''filename'', dict_get (PDict file_info) ''filename'')])
                    (Room (PStr room_id))]\<rparr>))"
  by (simp add: upload_file_def sio_emit_def open_append_def file_write_def sink_def Let_def)

theorem upload_file_validation_witness:
  "upload_file demo_rt ''a'' ((upload_chunk ''ab'')(''room_id'' \<mapsto> PInt 7)) demo_server
     = (None, demo_server\<lparr>emitted :=
         [Emit ''error'' (PStr ''Invalid room_id or user_id'') (Room (PStr ''a''))]\<rparr>)
   \<and> upload_file demo_rt ''a'' (upload_chunk []) demo_server
     = (None, demo_server\<lparr>emitted :=
         [Emit ''error'' (PStr ''Invalid file_info or file_chunk'') (Room (PStr ''a''))]\<rparr>)
   \<and> upload_file demo_rt ''a'' (room_user ''lobby'' ''alice'') demo_server
     = (None, demo_server\<lparr>emitted :=
         [Emit ''error'' (PStr ''Invalid file_info or file_chunk'') (Room (PStr ''a''))]\<rparr>)
   \<and> upload_file demo_rt ''a'' (upload_chunk ''ab'') demo_server
     = (None, demo_server\<lparr>files := [''uploads/u1_a.bin'' \<mapsto> ''ab''],
          emitted :=
            [Emit ''file_uploaded''
               (PDict [(''file_url'', PStr ''uploads/u1_a.bin''), (''filename'', PStr ''a.bin'')])
               (Room (PStr ''lobby''))]\<rparr>)"
proof -
  have ids: "upload_file demo_rt ''a'' ((upload_chunk ''ab'')(''room_id'' \<mapsto> PInt 7)) demo_server
     = (None, demo_server\<lparr>emitted := emitted demo_server @
         [Emit ''error'' (PStr ''Invalid room_id or user_id'') (Room (PStr ''a''))]\<rparr>)"
    by (rule upload_file_validation [THEN conjunct1, rule_format]) (simp add: demo_defs)
  have empty: "upload_file demo_rt ''a'' (upload_chunk []) demo_server
     = (None, demo_server\<lparr>emitted := emitted demo_server @
         [Emit ''error'' (PStr ''Invalid file_info or file_chunk'') (Room (PStr ''a''))]\<rparr>)"
    by (rule upload_file_validation [THEN conjunct2, THEN conjunct1, rule_format])
       (simp add: demo_defs)
  have absent: "upload_file demo_rt ''a'' (room_user ''lobby'' ''alice'') demo_server
     = (None, demo_server\<lparr>emitted := emitted demo_server @
         [Emit ''error'' (PStr ''Invalid file_info or file_chunk'') (Room (PStr ''a''))]\<rparr>)"
    by (rule upload_file_validation [THEN conjunct2, THEN conjunct1, rule_format])
       (simp add: demo_defs)
  have good: "upload_file demo_rt ''a'' (upload_chunk ''ab'') demo_server
     = (None, demo_server\<lparr>files := (files demo_server)(upload_path demo_rt demo_file_info
                                \<mapsto> sink demo_server (upload_path demo_rt demo_file_info) @ ''ab''),
          emitted := emitted demo_server @
            [Emit ''file_uploaded''
               (PDict [(''file_url'', PStr (upload_path demo_rt demo_file_info)),
                       (''filename'', dict_get demo_file_info ''filename'')])
               (Room (PStr ''lobby''))]\<rparr>)"
    unfolding demo_file_info_def
    by (rule upload_file_validation
          [where user_id = "''alice''", THEN conjunct2, THEN conjunct2, rule_format])
       (simp add: demo_defs)
  from ids empty absent good show ?thesis
    by (simp add: demo_defs upload_path_def sink_def)
qed

end
